theory Spec2Isabelle
  imports Main "HOL-Library.Word"
begin

section \<open>The offline protocol of protocol-offline.ts\<close>

text \<open>
  The class \<open>MyOfflineProtocol\<close> has no fields. Its methods read their parameters and
  nothing else. JavaScript strings are modelled as \<open>string\<close>; the code units above
  \<open>0xFF\<close> are not represented. A \<open>Uint8Array\<close> is a list of \<open>8 word\<close>, a promise
  is the sum of its rejection (\<open>Inl\<close>) and its resolution (\<open>Inr\<close>).
\<close>

subsection \<open>Values crossing the boundary\<close>

type_synonym u8 = "8 word"

text \<open>What a method throws: the built-in errors, an error of the curve library, and
  \<open>new Error(prefix + cause)\<close> of the \<open>catch\<close> blocks.\<close>

datatype js_error =
    RangeError
  | TypeError
  | LibraryError string
  | Error string js_error

record CryptoDerivative =
  secretKey :: string
  chainCode :: string
  publicKey :: string

record Key =
  keyType :: string
  keyFormat :: string
  keyValue :: string

type_synonym SecretKey = Key
type_synonym PublicKey = Key

record KeyPair =
  pairSecretKey :: SecretKey
  pairPublicKey :: PublicKey

subsection \<open>parseInt(_, 16) and the store into a Uint8Array element\<close>

definition isWhiteSpace :: "char \<Rightarrow> bool" where
  "isWhiteSpace c \<longleftrightarrow>
     c \<in> set [CHR 0x09, CHR 0x0A, CHR 0x0B, CHR 0x0C, CHR 0x0D, CHR 0x20, CHR 0xA0]"

definition digitValue :: "char \<Rightarrow> nat option" where
  "digitValue c =
     (let n = (of_char c :: nat) in
      if 48 \<le> n \<and> n \<le> 57 then Some (n - 48)
      else if 97 \<le> n \<and> n \<le> 102 then Some (n - 87)
      else if 65 \<le> n \<and> n \<le> 70 then Some (n - 55)
      else None)"

definition isRadixDigit :: "char \<Rightarrow> bool" where
  "isRadixDigit c \<longleftrightarrow> digitValue c \<noteq> None"

definition mathInt :: "string \<Rightarrow> nat" where
  "mathInt Z = foldl (\<lambda>a c. 16 * a + the (digitValue c)) 0 Z"

text \<open>
  \<open>parseInt(inputString, 16)\<close>: leading white space is trimmed, one sign is read, a
  prefix \<open>0x\<close> or \<open>0X\<close> is removed, and the longest run of hexadecimal digits is
  evaluated. \<open>None\<close> is \<open>NaN\<close>.
\<close>

definition parseInt16 :: "string \<Rightarrow> int option" where
  "parseInt16 inputString =
     (let S = dropWhile isWhiteSpace inputString;
          sign = (if S \<noteq> [] \<and> hd S = CHR ''-'' then - 1 else (1::int));
          S1 = (if S \<noteq> [] \<and> (hd S = CHR ''+'' \<or> hd S = CHR ''-'') then tl S else S);
          S2 = (if 2 \<le> length S1 \<and> (take 2 S1 = ''0x'' \<or> take 2 S1 = ''0X'')
                then drop 2 S1 else S1);
          Z = takeWhile isRadixDigit S2
      in if Z = [] then None else Some (sign * int (mathInt Z)))"

text \<open>Storing a number into a \<open>Uint8Array\<close> element: \<open>NaN\<close> becomes 0, an integer is
  reduced modulo 256.\<close>

definition toUint8 :: "int option \<Rightarrow> u8" where
  "toUint8 v = (case v of None \<Rightarrow> 0 | Some n \<Rightarrow> word_of_int n)"

text \<open>\<open>arr[k] = v\<close> on a typed array: a store outside the array is ignored.\<close>

definition u8_store :: "u8 list \<Rightarrow> nat \<Rightarrow> u8 \<Rightarrow> u8 list" where
  "u8_store arr k v = (if k < length arr then arr[k := v] else arr)"

definition substr :: "string \<Rightarrow> nat \<Rightarrow> nat \<Rightarrow> string" where
  "substr s i n = take n (drop i s)"

subsection \<open>The decoding loop (lines 88-101)\<close>

text \<open>
  \<^verbatim>\<open>for (let i = 0; i < s.length; i += 2) bytes[i / 2] = parseInt(s.substr(i, 2), 16)\<close>
  where \<open>bytes = new Uint8Array(s.length / 2)\<close>; the length of the array is the
  quotient truncated.
\<close>

function hexLoop :: "string \<Rightarrow> nat \<Rightarrow> u8 list \<Rightarrow> u8 list" where
  "hexLoop s i bytes =
     (if i < length s
      then hexLoop s (i + 2) (u8_store bytes (i div 2) (toUint8 (parseInt16 (substr s i 2))))
      else bytes)"
  by pat_completeness auto
termination
  by (relation "measure (\<lambda>(s, i, bytes). length s - i)") auto

declare hexLoop.simps [simp del]

definition hexToBytes :: "string \<Rightarrow> u8 list" where
  "hexToBytes s = hexLoop s 0 (replicate (length s div 2) 0)"

subsection \<open>The encoding of line 119\<close>

text \<open>The digit of a value below 16, as \<open>toString(16)\<close> writes it.\<close>

definition hexDigit :: "nat \<Rightarrow> char" where
  "hexDigit k = ''0123456789abcdef'' ! k"

text \<open>\<open>Number.prototype.toString(16)\<close> on a non-negative integer.\<close>

fun toString16 :: "nat \<Rightarrow> string" where
  "toString16 n = (if n < 16 then [hexDigit n] else toString16 (n div 16) @ [hexDigit (n mod 16)])"

declare toString16.simps [simp del]

definition padStart :: "nat \<Rightarrow> char \<Rightarrow> string \<Rightarrow> string" where
  "padStart targetLength c s = replicate (targetLength - length s) c @ s"

definition byteToHex :: "u8 \<Rightarrow> string" where
  "byteToHex byte = padStart 2 CHR ''0'' (toString16 (unat byte))"

definition bytesToHex :: "u8 list \<Rightarrow> string" where
  "bytesToHex bytes = concat (map byteToHex bytes)"

subsection \<open>TypedArray.prototype.set\<close>

text \<open>\<open>target.set(source, offset)\<close> throws a \<open>RangeError\<close> when the source does not
  fit; otherwise it overwrites \<open>length source\<close> elements from \<open>offset\<close> on.\<close>

definition u8_set :: "u8 list \<Rightarrow> u8 list \<Rightarrow> nat \<Rightarrow> js_error + u8 list" where
  "u8_set target source offset =
     (if length source + offset > length target then Inl RangeError
      else Inr (take offset target @ source @ drop (offset + length source) target))"

subsection \<open>getKeyPairFromDerivative (lines 80-130)\<close>

text \<open>Sequencing inside the \<open>try\<close> block: an exception skips the statements after it.\<close>

definition andThen :: "'e + 'a \<Rightarrow> ('a \<Rightarrow> 'e + 'b) \<Rightarrow> 'e + 'b" where
  "andThen r k = (case r of Inl e \<Rightarrow> Inl e | Inr x \<Rightarrow> k x)"

text \<open>Lines 105-113: the array of 96 bytes, then the array of 128 bytes, each filled
  by \<open>set\<close>.\<close>

definition assembleFullKeypair :: "u8 list \<Rightarrow> u8 list \<Rightarrow> u8 list \<Rightarrow> js_error + u8 list" where
  "assembleFullKeypair secretKeyBytes chainCodeBytes publicKeyBytes =
     andThen (u8_set (replicate 96 0) secretKeyBytes 0) (\<lambda>x1.
     andThen (u8_set x1 secretKeyBytes 32) (\<lambda>x2.
     andThen (u8_set x2 chainCodeBytes 64) (\<lambda>extendedPrivateKey.
     andThen (u8_set (replicate 128 0) extendedPrivateKey 0) (\<lambda>f1.
     u8_set f1 publicKeyBytes 96))))"

definition getKeyPairFromDerivative :: "'a CryptoDerivative_scheme \<Rightarrow> js_error + KeyPair" where
  "getKeyPairFromDerivative derivative =
     (let secretKeyBytes = hexToBytes (secretKey derivative);
          chainCodeBytes = hexToBytes (chainCode derivative);
          publicKeyBytes = hexToBytes (publicKey derivative)
      in case assembleFullKeypair secretKeyBytes chainCodeBytes publicKeyBytes of
           Inl error \<Rightarrow> Inl (Error ''Failed to derive key pair from derivative: '' error)
         | Inr fullKeypair \<Rightarrow>
             Inr \<lparr> pairSecretKey =
                     \<lparr> keyType = ''priv'', keyFormat = ''hex'', keyValue = bytesToHex fullKeypair \<rparr>,
                   pairPublicKey =
                     \<lparr> keyType = ''pub'', keyFormat = ''hex'', keyValue = publicKey derivative \<rparr> \<rparr>)"

subsection \<open>getPublicKeyFromSecretKey (lines 138-151)\<close>

text \<open>
  The module \<open>../crypto/kaspa\<close> is a parameter: the constructor \<open>PrivateKey\<close>, the
  function \<open>Keypair.fromPrivateKey\<close> and the reading \<open>publicKey.toString()\<close> of its
  result. Each may throw. The constructor is handed the string \<open>secretKey.value\<close>.
\<close>

record ('p, 'k) KaspCrypto =
  PrivateKey :: "string \<Rightarrow> js_error + 'p"
  fromPrivateKey :: "'p \<Rightarrow> js_error + 'k"
  publicKeyToString :: "'k \<Rightarrow> js_error + string"

definition getPublicKeyFromSecretKey ::
  "('p, 'k) KaspCrypto \<Rightarrow> SecretKey \<Rightarrow> js_error + PublicKey" where
  "getPublicKeyFromSecretKey lib secretKey' =
     (case andThen (PrivateKey lib (keyValue secretKey')) (\<lambda>privKey.
           andThen (fromPrivateKey lib privKey) (\<lambda>publicKeyBuffer.
           andThen (publicKeyToString lib publicKeyBuffer) (\<lambda>v.
           Inr \<lparr> keyType = ''pub'', keyFormat = ''hex'', keyValue = v \<rparr>))) of
        Inl error \<Rightarrow> Inl (Error ''Failed to derive public key: '' error)
      | Inr r \<Rightarrow> Inr r)"

subsection \<open>signTransactionWithSecretKey (lines 160-165)\<close>

text \<open>The body of the method is empty: the call returns \<open>undefined\<close>, whatever the
  transaction and the key. The transaction types of the module kit are type parameters.\<close>

datatype 'a returned = Undefined | Returned 'a

definition signTransactionWithSecretKey ::
  "'tx \<Rightarrow> SecretKey \<Rightarrow> (js_error + 'stx) returned" where
  "signTransactionWithSecretKey transaction secretKey' = Undefined"

subsection \<open>getMetadata and getCryptoConfiguration (lines 32-72)\<close>

record ProtocolSymbol =
  symbolValue :: string
  market :: string
  asset :: string

record ProtocolUnit =
  symbol :: ProtocolSymbol
  decimals :: nat

record ProtocolAccountMetadata =
  standardDerivationPath :: string

record ProtocolMetadata =
  protocolName :: string
  protocolIdentifier :: string
  units :: "(string \<times> ProtocolUnit) list"
  mainUnit :: string
  account :: ProtocolAccountMetadata

record CryptoConfiguration =
  algorithm :: string

definition getMetadata :: "js_error + ProtocolMetadata" where
  "getMetadata =
     (let mainUnit = ''KAS'';
          symbol = \<lparr> symbolValue = mainUnit, market = ''kaspa-market'', asset = ''kaspa-asset'' \<rparr>;
          accountMetadata = \<lparr> standardDerivationPath = ''m/84'/0'/0'/0/0'' \<rparr>
      in Inr \<lparr> protocolName = ''My Protocol'',
               protocolIdentifier = ''my-protocol'',
               units = [(mainUnit, \<lparr> symbol = symbol, decimals = 8 \<rparr>)],
               mainUnit = mainUnit,
               account = accountMetadata \<rparr>)"

definition getCryptoConfiguration :: "js_error + CryptoConfiguration" where
  "getCryptoConfiguration = Inr \<lparr> algorithm = ''secp256k1'' \<rparr>"

subsection \<open>The methods over an explicit store\<close>

text \<open>
  The objects a caller holds are cells of a store; a reference is a position and
  \<open>new\<close> appends a cell. Every read of \<open>derivative.secretKey\<close> and every store into
  a typed array goes through the store, and an exception leaves the store as it is at
  that point. The curve library is handed a string, a primitive value, and so does not
  reach the cells of the caller.
\<close>

datatype cell =
    DerivativeCell CryptoDerivative
  | KeyCell Key
  | Uint8ArrayCell "u8 list"

type_synonym store = "cell list"
type_synonym ref = nat

definition lookup :: "store \<Rightarrow> ref \<Rightarrow> cell option" where
  "lookup st r = (if r < length st then Some (st ! r) else None)"

definition bindIn ::
  "(store \<Rightarrow> (js_error + 'a) \<times> store) \<Rightarrow> ('a \<Rightarrow> store \<Rightarrow> (js_error + 'b) \<times> store) \<Rightarrow>
   store \<Rightarrow> (js_error + 'b) \<times> store" where
  "bindIn m k st = (case m st of (Inl e, st') \<Rightarrow> (Inl e, st') | (Inr x, st') \<Rightarrow> k x st')"

definition catchIn ::
  "string \<Rightarrow> (store \<Rightarrow> (js_error + 'a) \<times> store) \<Rightarrow> store \<Rightarrow> (js_error + 'a) \<times> store" where
  "catchIn prefix m st =
     (case m st of (Inl error, st') \<Rightarrow> (Inl (Error prefix error), st') | (Inr x, st') \<Rightarrow> (Inr x, st'))"

text \<open>\<open>derivative.f\<close>, used as a string: a \<open>TypeError\<close> when the object has no such field.\<close>

definition getField ::
  "ref \<Rightarrow> (CryptoDerivative \<Rightarrow> string) \<Rightarrow> store \<Rightarrow> (js_error + string) \<times> store" where
  "getField derivative f st =
     (case lookup st derivative of
        Some (DerivativeCell d) \<Rightarrow> (Inr (f d), st)
      | _ \<Rightarrow> (Inl TypeError, st))"

definition getKeyValue :: "ref \<Rightarrow> store \<Rightarrow> (js_error + string) \<times> store" where
  "getKeyValue key st =
     (case lookup st key of
        Some (KeyCell k) \<Rightarrow> (Inr (keyValue k), st)
      | _ \<Rightarrow> (Inl TypeError, st))"

definition newUint8Array :: "nat \<Rightarrow> store \<Rightarrow> (js_error + ref) \<times> store" where
  "newUint8Array n st = (Inr (length st), st @ [Uint8ArrayCell (replicate n 0)])"

definition arrayOf :: "store \<Rightarrow> ref \<Rightarrow> u8 list" where
  "arrayOf st r = (case lookup st r of Some (Uint8ArrayCell bytes) \<Rightarrow> bytes | _ \<Rightarrow> [])"

definition storeElement :: "ref \<Rightarrow> nat \<Rightarrow> u8 \<Rightarrow> store \<Rightarrow> store" where
  "storeElement r k v st =
     (case lookup st r of
        Some (Uint8ArrayCell bytes) \<Rightarrow> st[r := Uint8ArrayCell (u8_store bytes k v)]
      | _ \<Rightarrow> st)"

text \<open>The length of the string that the loop condition reads in store \<open>st\<close>.\<close>

definition fieldLength :: "ref \<Rightarrow> (CryptoDerivative \<Rightarrow> string) \<Rightarrow> store \<Rightarrow> nat" where
  "fieldLength derivative f st =
     (case fst (getField derivative f st) of Inl e \<Rightarrow> 0 | Inr s \<Rightarrow> length s)"

function hexLoopIn ::
  "ref \<Rightarrow> (CryptoDerivative \<Rightarrow> string) \<Rightarrow> nat \<Rightarrow> ref \<Rightarrow> store \<Rightarrow> (js_error + unit) \<times> store" where
  "hexLoopIn derivative f i bytes st =
     (case fst (getField derivative f st) of
        Inl e \<Rightarrow> (Inl e, st)
      | Inr s \<Rightarrow>
          if i < length s
          then hexLoopIn derivative f (i + 2) bytes
                 (storeElement bytes (i div 2) (toUint8 (parseInt16 (substr s i 2))) st)
          else (Inr (), st))"
  by pat_completeness auto
termination
proof (relation "measure (\<lambda>(derivative, f, i, bytes, st). fieldLength derivative f st - i)")
  show "wf (measure (\<lambda>(derivative, f, i, bytes, st). fieldLength derivative f st - i))"
    by simp
next
  fix derivative :: ref and f :: "CryptoDerivative \<Rightarrow> string" and i :: nat and bytes :: ref
    and st :: store and s :: string
  assume s: "fst (getField derivative f st) = Inr s" and i: "i < length s"
  let ?st' = "storeElement bytes (i div 2) (toUint8 (parseInt16 (substr s i 2))) st"
  have "fst (getField derivative f ?st') = Inr s"
    using s
    by (auto simp: getField_def storeElement_def lookup_def nth_list_update
             split: option.splits cell.splits if_splits)
  then have "fieldLength derivative f ?st' = length s"
    by (simp add: fieldLength_def)
  moreover have "fieldLength derivative f st = length s"
    using s by (simp add: fieldLength_def)
  ultimately show
    "((derivative, f, i + 2, bytes, ?st'), (derivative, f, i, bytes, st))
       \<in> measure (\<lambda>(derivative, f, i, bytes, st). fieldLength derivative f st - i)"
    using i by simp
qed

declare hexLoopIn.simps [simp del]

text \<open>\<^verbatim>\<open>const bytes = new Uint8Array(derivative.f.length / 2); for (...) { ... }\<close>\<close>

definition decodeField ::
  "ref \<Rightarrow> (CryptoDerivative \<Rightarrow> string) \<Rightarrow> store \<Rightarrow> (js_error + ref) \<times> store" where
  "decodeField derivative f =
     bindIn (getField derivative f) (\<lambda>s.
     bindIn (newUint8Array (length s div 2)) (\<lambda>bytes.
     bindIn (hexLoopIn derivative f 0 bytes) (\<lambda>_ st. (Inr bytes, st))))"

definition setIn :: "ref \<Rightarrow> ref \<Rightarrow> nat \<Rightarrow> store \<Rightarrow> (js_error + unit) \<times> store" where
  "setIn target source offset st =
     (case u8_set (arrayOf st target) (arrayOf st source) offset of
        Inl e \<Rightarrow> (Inl e, st)
      | Inr r \<Rightarrow> (Inr (), st[target := Uint8ArrayCell r]))"

definition getKeyPairFromDerivativeIn :: "ref \<Rightarrow> store \<Rightarrow> (js_error + KeyPair) \<times> store" where
  "getKeyPairFromDerivativeIn derivative =
     catchIn ''Failed to derive key pair from derivative: ''
      (bindIn (decodeField derivative secretKey) (\<lambda>secretKeyBytes.
       bindIn (decodeField derivative chainCode) (\<lambda>chainCodeBytes.
       bindIn (decodeField derivative publicKey) (\<lambda>publicKeyBytes.
       bindIn (newUint8Array 96) (\<lambda>extendedPrivateKey.
       bindIn (setIn extendedPrivateKey secretKeyBytes 0) (\<lambda>_.
       bindIn (setIn extendedPrivateKey secretKeyBytes 32) (\<lambda>_.
       bindIn (setIn extendedPrivateKey chainCodeBytes 64) (\<lambda>_.
       bindIn (newUint8Array 128) (\<lambda>fullKeypair.
       bindIn (setIn fullKeypair extendedPrivateKey 0) (\<lambda>_.
       bindIn (setIn fullKeypair publicKeyBytes 96) (\<lambda>_.
       bindIn (getField derivative publicKey) (\<lambda>v st.
         (Inr \<lparr> pairSecretKey =
                  \<lparr> keyType = ''priv'', keyFormat = ''hex'',
                    keyValue = bytesToHex (arrayOf st fullKeypair) \<rparr>,
                pairPublicKey =
                  \<lparr> keyType = ''pub'', keyFormat = ''hex'', keyValue = v \<rparr> \<rparr>,
          st)))))))))))))"

definition getPublicKeyFromSecretKeyIn ::
  "('p, 'k) KaspCrypto \<Rightarrow> ref \<Rightarrow> store \<Rightarrow> (js_error + PublicKey) \<times> store" where
  "getPublicKeyFromSecretKeyIn lib secretKey' =
     catchIn ''Failed to derive public key: ''
      (bindIn (getKeyValue secretKey') (\<lambda>value' st.
         (andThen (PrivateKey lib value') (\<lambda>privKey.
          andThen (fromPrivateKey lib privKey) (\<lambda>publicKeyBuffer.
          andThen (publicKeyToString lib publicKeyBuffer) (\<lambda>v.
          Inr \<lparr> keyType = ''pub'', keyFormat = ''hex'', keyValue = v \<rparr>))),
          st)))"

subsection \<open>Notions of the specification\<close>

text \<open>A valid hexadecimal string has even length and hexadecimal digits only;
  \<open>lowercase\<close> maps the letters \<open>A\<close> to \<open>Z\<close> to \<open>a\<close> to \<open>z\<close>.\<close>

definition isHexChar :: "char \<Rightarrow> bool" where
  "isHexChar c \<longleftrightarrow> c \<in> set ''0123456789abcdefABCDEF''"

definition validHex :: "string \<Rightarrow> bool" where
  "validHex s \<longleftrightarrow> even (length s) \<and> list_all isHexChar s"

definition lowerChar :: "char \<Rightarrow> char" where
  "lowerChar c =
     (case map_of (zip ''ABCDEFGHIJKLMNOPQRSTUVWXYZ'' ''abcdefghijklmnopqrstuvwxyz'') c of
        Some l \<Rightarrow> l
      | None \<Rightarrow> c)"

definition lowercase :: "string \<Rightarrow> string" where
  "lowercase s = map lowerChar s"

text \<open>A derivation path written from its segments, a hardened segment marked by an
  apostrophe.\<close>

fun decimal :: "nat \<Rightarrow> string" where
  "decimal n =
     (if n < 10 then [''0123456789'' ! n] else decimal (n div 10) @ [''0123456789'' ! (n mod 10)])"

declare decimal.simps [simp del]

definition pathSegment :: "nat \<times> bool \<Rightarrow> string" where
  "pathSegment seg = decimal (fst seg) @ (if snd seg then [CHR 0x27] else [])"

definition derivationPath :: "(nat \<times> bool) list \<Rightarrow> string" where
  "derivationPath segs = CHR ''m'' # concat (map (\<lambda>seg. CHR ''/'' # pathSegment seg) segs)"

subsection \<open>A curve library after the specification\<close>

text \<open>
  Modelled from the spec: the module \<open>../crypto/kaspa\<close> (\<open>KaspCrypto.PrivateKey\<close>,
  \<open>KaspCrypto.Keypair.fromPrivateKey\<close>) is not among the sources. After section 4.3 of
  the specification: the value is decoded from hexadecimal text, the raw bytes must be
  a valid secp256k1 scalar (32 bytes, not zero, below the order of the curve), the public
  key is the scalar multiple of the generator, returned as the hexadecimal text of the
  compressed point.
\<close>

definition curveP :: int where
  "curveP = 2 ^ 256 - 2 ^ 32 - 977"

definition curveN :: nat where
  "curveN = 0xFFFFFFFFFFFFFFFFFFFFFFFFFFFFFFFEBAAEDCE6AF48A03BBFD25E8CD0364141"

definition curveG :: "int \<times> int" where
  "curveG =
     (0x79BE667EF9DCBBAC55A06295CE870B07029BFCDB2DCE28D959F2815B16F81798,
      0x483ADA7726A3C4655DA4FBFC0E1108A8FD17B448A68554199C47D08FFB10D4B8)"

fun powMod :: "int \<Rightarrow> nat \<Rightarrow> int \<Rightarrow> int" where
  "powMod b e m =
     (if e = 0 then 1 mod m
      else let h = powMod b (e div 2) m; h2 = h * h mod m
           in if odd e then h2 * b mod m else h2)"

declare powMod.simps [simp del]

definition inverseMod :: "int \<Rightarrow> int" where
  "inverseMod a = powMod (a mod curveP) (nat (curveP - 2)) curveP"

text \<open>Points in affine coordinates; \<open>None\<close> is the point at infinity.\<close>

fun pointAdd :: "(int \<times> int) option \<Rightarrow> (int \<times> int) option \<Rightarrow> (int \<times> int) option" where
  "pointAdd None Q = Q"
| "pointAdd (Some P) None = Some P"
| "pointAdd (Some (x1, y1)) (Some (x2, y2)) =
     (if x1 = x2 \<and> (y1 + y2) mod curveP = 0 then None
      else let l = (if x1 = x2 then 3 * x1 * x1 * inverseMod (2 * y1)
                    else (y2 - y1) * inverseMod (x2 - x1)) mod curveP;
               x3 = (l * l - x1 - x2) mod curveP
           in Some (x3, (l * (x1 - x3) - y1) mod curveP))"

fun scalarMult :: "nat \<Rightarrow> (int \<times> int) option \<Rightarrow> (int \<times> int) option" where
  "scalarMult k P =
     (if k = 0 then None
      else let Q = scalarMult (k div 2) (pointAdd P P)
           in if odd k then pointAdd P Q else Q)"

declare scalarMult.simps [simp del]

text \<open>Modelled from the spec: the reading of the raw bytes as a scalar, big-endian, and
  the hexadecimal text of a compressed point, of the absent \<open>../crypto/kaspa\<close>.\<close>

definition bytesToNat :: "u8 list \<Rightarrow> nat" where
  "bytesToNat bytes = foldl (\<lambda>a b. 256 * a + unat b) 0 bytes"

definition natToBytes32 :: "nat \<Rightarrow> u8 list" where
  "natToBytes32 n = map (\<lambda>i. of_nat (n div 256 ^ (31 - i))) [0 ..< 32]"

definition compressedHex :: "int \<times> int \<Rightarrow> string" where
  "compressedHex P =
     (if even (snd P) then ''02'' else ''03'') @ bytesToHex (natToBytes32 (nat (fst P)))"

text \<open>Modelled from the spec: \<open>new KaspCrypto.PrivateKey(value)\<close> of the absent
  \<open>../crypto/kaspa\<close>; it fails on text that is not valid hexadecimal and on bytes that
  are no valid scalar.\<close>

definition specPrivateKey :: "string \<Rightarrow> js_error + nat" where
  "specPrivateKey v =
     (if \<not> validHex v then Inl (LibraryError ''MalformedEncoding'')
      else let bytes = hexToBytes v; k = bytesToNat bytes
           in if length bytes \<noteq> 32 \<or> k = 0 \<or> curveN \<le> k
              then Inl (LibraryError ''DerivationFailure'')
              else Inr k)"

text \<open>Modelled from the spec: \<open>KaspCrypto.Keypair.fromPrivateKey\<close> of the absent
  \<open>../crypto/kaspa\<close>, the scalar multiple of the generator.\<close>

definition specFromPrivateKey :: "nat \<Rightarrow> js_error + int \<times> int" where
  "specFromPrivateKey k =
     (case scalarMult k (Some curveG) of
        None \<Rightarrow> Inl (LibraryError ''DerivationFailure'')
      | Some P \<Rightarrow> Inr P)"

text \<open>Modelled from the spec: the module \<open>../crypto/kaspa\<close> as a whole.\<close>

definition specKaspCrypto :: "(nat, int \<times> int) KaspCrypto" where
  "specKaspCrypto =
     \<lparr> PrivateKey = specPrivateKey,
       fromPrivateKey = specFromPrivateKey,
       publicKeyToString = (\<lambda>P. Inr (compressedHex P)) \<rparr>"

section \<open>Properties\<close>

subsection \<open>The decoding loop and the assembly\<close>

lemma hexLoop_eq:
  "even i \<Longrightarrow> length bytes = length s div 2 \<Longrightarrow>
   hexLoop s i bytes = take (i div 2) bytes @ map (\<lambda>k. toUint8 (parseInt16 (substr s (2 * k) 2))) [i div 2 ..< length s div 2]"
proof (induction s i bytes rule: hexLoop.induct)
  case (1 s i bytes)
  let ?k = "i div 2"
  let ?n = "length s div 2"
  from \<open>even i\<close> have i: "i = 2 * ?k" by simp
  show ?case
  proof (cases "i < length s")
    case False
    with \<open>even i\<close> have "?n \<le> ?k" by (simp add: div_le_mono)
    with False 1(3) show ?thesis by (simp add: hexLoop.simps [of s i])
  next
    case True
    let ?v = "toUint8 (parseInt16 (substr s i 2))"
    have v: "?v = toUint8 (parseInt16 (substr s (2 * ?k) 2))" using i by simp
    have len: "length (u8_store bytes ?k ?v) = ?n" using 1(3) by (simp add: u8_store_def)
    have ev: "even (i + 2)" using \<open>even i\<close> by simp
    have step: "hexLoop s i bytes = hexLoop s (i + 2) (u8_store bytes ?k ?v)"
      using True by (simp add: hexLoop.simps [of s i])
    have ih: "hexLoop s (i + 2) (u8_store bytes ?k ?v) =
        take (Suc ?k) (u8_store bytes ?k ?v) @ map (\<lambda>k. toUint8 (parseInt16 (substr s (2 * k) 2))) [Suc ?k ..< ?n]"
      using "1.IH" [OF True ev len] by simp
    show ?thesis
    proof (cases "?k < ?n")
      case inb: True
      then have "take (Suc ?k) (u8_store bytes ?k ?v) = take ?k bytes @ [toUint8 (parseInt16 (substr s (2 * ?k) 2))]"
        using 1(3) v by (simp add: u8_store_def take_Suc_conv_app_nth)
      moreover have "[?k ..< ?n] = ?k # [Suc ?k ..< ?n]" using inb by (simp add: upt_conv_Cons)
      ultimately show ?thesis using step ih by simp
    next
      case oob: False
      then show ?thesis using step ih 1(3) by (simp add: u8_store_def)
    qed
  qed
qed

lemma hexToBytes_map: "hexToBytes s = map (\<lambda>k. toUint8 (parseInt16 (substr s (2 * k) 2))) [0 ..< length s div 2]"
  by (simp add: hexToBytes_def hexLoop_eq)

lemma length_hexToBytes: "length (hexToBytes s) = length s div 2"
  by (simp add: hexToBytes_map)

lemma hexToBytes_Nil: "hexToBytes [] = []"
  by (simp add: hexToBytes_map)

lemma decode_at_Suc: "substr (a # b # s) (2 * Suc k) 2 = substr s (2 * k) 2"
  by (simp add: substr_def)

lemma hexToBytes_Cons2: "hexToBytes (a # b # s) = toUint8 (parseInt16 [a, b]) # hexToBytes s"
proof -
  have "[0 ..< Suc (length s div 2)] = 0 # map Suc [0 ..< length s div 2]"
    by (simp add: upt_conv_Cons map_Suc_upt del: upt_Suc)
  then have "hexToBytes (a # b # s) =
      toUint8 (parseInt16 (substr (a # b # s) 0 2)) #
      map (\<lambda>k. toUint8 (parseInt16 (substr (a # b # s) (2 * Suc k) 2))) [0 ..< length s div 2]"
    by (simp add: hexToBytes_map comp_def del: upt_Suc)
  then show ?thesis by (simp add: decode_at_Suc hexToBytes_map substr_def)
qed

lemma u8_set_fits:
  "length source + offset \<le> length target \<Longrightarrow>
   u8_set target source offset =
     Inr (take offset target @ source @ drop (offset + length source) target)"
  by (simp add: u8_set_def)

lemma u8_set_overflow:
  "length target < length source + offset \<Longrightarrow> u8_set target source offset = Inl RangeError"
  by (simp add: u8_set_def)

lemma andThen_Inr: "andThen (Inr x) k = k x"
  by (simp add: andThen_def)

lemma andThen_Inl: "andThen (Inl e) k = Inl e"
  by (simp add: andThen_def)


lemma length_u8_set:
  "u8_set target source offset = Inr r \<Longrightarrow> length r = length target"
  by (auto simp: u8_set_def split: if_splits)

lemma assemble_steps:
  assumes sk: "length sk \<le> 64"
  shows "\<exists>x2. length x2 = 96 \<and>
           assembleFullKeypair sk cc pk =
             andThen (u8_set x2 cc 64) (\<lambda>extendedPrivateKey.
             andThen (u8_set (replicate 128 0) extendedPrivateKey 0) (\<lambda>f1.
             u8_set f1 pk 96))"
proof -
  obtain x1 where x1: "u8_set (replicate 96 0) sk 0 = Inr x1"
    using sk by (simp add: u8_set_def)
  have l1: "length x1 = 96" using length_u8_set [OF x1] by simp
  obtain x2 where x2: "u8_set x1 sk 32 = Inr x2"
    using sk l1 by (simp add: u8_set_def)
  have l2: "length x2 = 96" using length_u8_set [OF x2] l1 by simp
  show ?thesis
    using l2 by (auto simp only: assembleFullKeypair_def x1 x2 andThen_Inr)
qed

lemma assemble_overflow:
  assumes "64 < length sk \<or> 32 < length cc \<or> 32 < length pk"
  shows "assembleFullKeypair sk cc pk = Inl RangeError"
proof (cases "64 < length sk")
  case True
  show ?thesis
  proof (cases "96 < length sk")
    case True
    then have "u8_set (replicate 96 0) sk 0 = Inl RangeError" by (simp add: u8_set_def)
    then show ?thesis by (simp only: assembleFullKeypair_def andThen_Inl)
  next
    case False
    then obtain x1 where x1: "u8_set (replicate 96 0) sk 0 = Inr x1"
      by (simp add: u8_set_def)
    have l1: "length x1 = 96" using length_u8_set [OF x1] by simp
    have "u8_set x1 sk 32 = Inl RangeError" using True l1 by (simp add: u8_set_def)
    then show ?thesis by (simp only: assembleFullKeypair_def x1 andThen_Inr andThen_Inl)
  qed
next
  case False
  then have "length sk \<le> 64" by simp
  from assemble_steps [OF this, of cc pk] obtain x2 where l2: "length x2 = 96"
    and eq: "assembleFullKeypair sk cc pk =
             andThen (u8_set x2 cc 64) (\<lambda>extendedPrivateKey.
             andThen (u8_set (replicate 128 0) extendedPrivateKey 0) (\<lambda>f1.
             u8_set f1 pk 96))" by blast
  show ?thesis
  proof (cases "32 < length cc")
    case True
    then have "u8_set x2 cc 64 = Inl RangeError" using l2 by (simp add: u8_set_def)
    then show ?thesis by (simp only: eq andThen_Inl)
  next
    case cc: False
    with False assms have pk: "32 < length pk" by simp
    obtain ext where ext: "u8_set x2 cc 64 = Inr ext" using cc l2 by (simp add: u8_set_def)
    have l3: "length ext = 96" using length_u8_set [OF ext] l2 by simp
    obtain f1 where f1: "u8_set (replicate 128 0) ext 0 = Inr f1"
      using l3 by (simp add: u8_set_def)
    have l4: "length f1 = 128" using length_u8_set [OF f1] by simp
    have "u8_set f1 pk 96 = Inl RangeError" using pk l4 by (simp add: u8_set_def)
    then show ?thesis by (simp only: eq ext f1 andThen_Inr)
  qed
qed

lemma assemble_fits:
  assumes "length sk \<le> 64" "length cc \<le> 32" "length pk \<le> 32"
  shows "\<exists>ext. length ext = 96 \<and>
           assembleFullKeypair sk cc pk = Inr (ext @ pk @ replicate (32 - length pk) 0)"
proof -
  from assemble_steps [OF assms(1), of cc pk] obtain x2 where l2: "length x2 = 96"
    and eq: "assembleFullKeypair sk cc pk =
             andThen (u8_set x2 cc 64) (\<lambda>extendedPrivateKey.
             andThen (u8_set (replicate 128 0) extendedPrivateKey 0) (\<lambda>f1.
             u8_set f1 pk 96))" by blast
  obtain ext where ext: "u8_set x2 cc 64 = Inr ext" using assms(2) l2 by (simp add: u8_set_def)
  have l3: "length ext = 96" using length_u8_set [OF ext] l2 by simp
  have "replicate 128 (0::u8) = replicate 96 0 @ replicate 32 0"
    by (simp add: replicate_add [symmetric])
  then have f1: "u8_set (replicate 128 0) ext 0 = Inr (ext @ replicate 32 0)"
    using l3 by (simp add: u8_set_def)
  have "u8_set (ext @ replicate 32 0) pk 96 = Inr (ext @ pk @ replicate (32 - length pk) 0)"
    using l3 assms(3) by (simp add: u8_set_def)
  then have "assembleFullKeypair sk cc pk = Inr (ext @ pk @ replicate (32 - length pk) 0)"
    by (simp only: eq ext f1 andThen_Inr)
  with l3 show ?thesis by blast
qed

lemma assemble_exact:
  assumes "length sk = 32" "length cc = 32" "length pk = 32"
  shows "assembleFullKeypair sk cc pk = Inr (sk @ sk @ cc @ pk)"
proof -
  have r96: "replicate 96 (0::u8) = replicate 32 0 @ replicate 32 0 @ replicate 32 0"
    by (simp add: replicate_add [symmetric])
  have r128: "replicate 128 (0::u8) = replicate 96 0 @ replicate 32 0"
    by (simp add: replicate_add [symmetric])
  have x1: "u8_set (replicate 96 0) sk 0 = Inr (sk @ replicate 32 0 @ replicate 32 0)"
    using assms(1) by (simp add: u8_set_def r96)
  have x2: "u8_set (sk @ replicate 32 0 @ replicate 32 0) sk 32 = Inr (sk @ sk @ replicate 32 0)"
    using assms(1) by (simp add: u8_set_def)
  have x3: "u8_set (sk @ sk @ replicate 32 0) cc 64 = Inr (sk @ sk @ cc)"
    using assms(1,2) by (simp add: u8_set_def)
  have x4: "u8_set (replicate 128 0) (sk @ sk @ cc) 0 = Inr ((sk @ sk @ cc) @ replicate 32 0)"
    using assms(1,2) by (simp add: u8_set_def r128)
  have x5: "u8_set ((sk @ sk @ cc) @ replicate 32 0) pk 96 = Inr (sk @ sk @ cc @ pk)"
    using assms by (simp add: u8_set_def)
  show ?thesis
    by (simp only: assembleFullKeypair_def x1 x2 x3 x4 x5 andThen_Inr)
qed

subsection \<open>Digits\<close>

lemma hexChars_all:
  "list_all (\<lambda>c. case digitValue c of None \<Rightarrow> False | Some v \<Rightarrow> v < 16 \<and> hexDigit v = lowerChar c)
     ''0123456789abcdefABCDEF''"
  by code_simp

lemma isHexChar_digitValue:
  assumes "isHexChar c"
  shows "\<exists>v. digitValue c = Some v \<and> v < 16 \<and> hexDigit v = lowerChar c"
proof -
  from assms hexChars_all
  have "case digitValue c of None \<Rightarrow> False | Some v \<Rightarrow> v < 16 \<and> hexDigit v = lowerChar c"
    unfolding isHexChar_def list_all_iff by blast
  then show ?thesis by (cases "digitValue c") auto
qed

lemma digitValue_hexDigit_all: "list_all (\<lambda>k. digitValue (hexDigit k) = Some k) [0 ..< 16]"
  by code_simp

lemma digitValue_hexDigit: "k < 16 \<Longrightarrow> digitValue (hexDigit k) = Some k"
  using digitValue_hexDigit_all by (simp add: list_all_iff)

lemma hexDigit_zero: "hexDigit 0 = CHR ''0''"
  by (simp add: hexDigit_def)

lemma whiteSpace_no_digit: "isWhiteSpace c \<Longrightarrow> digitValue c = None"
  by (auto simp: isWhiteSpace_def digitValue_def)

lemma sign_no_digit:
  "digitValue (CHR ''+'') = None" "digitValue (CHR ''-'') = None"
  "digitValue (CHR ''x'') = None" "digitValue (CHR ''X'') = None"
  by (simp_all add: digitValue_def)

lemma radixDigit_plain:
  assumes "digitValue c = Some v"
  shows "\<not> isWhiteSpace c" "c \<noteq> CHR ''+''" "c \<noteq> CHR ''-''" "c \<noteq> CHR ''x''" "c \<noteq> CHR ''X''"
  using assms whiteSpace_no_digit [of c] sign_no_digit by auto

lemma parseInt16_pair:
  assumes "digitValue c1 = Some v1" "digitValue c2 = Some v2"
  shows "parseInt16 [c1, c2] = Some (int (16 * v1 + v2))"
  using assms radixDigit_plain [OF assms(1)] radixDigit_plain [OF assms(2)]
  by (simp add: parseInt16_def Let_def isRadixDigit_def mathInt_def)

subsection \<open>One byte\<close>

lemma toString16_small: "n < 16 \<Longrightarrow> toString16 n = [hexDigit n]"
  by (simp add: toString16.simps [of n])

lemma toString16_byte:
  assumes "16 \<le> n" "n < 256"
  shows "toString16 n = [hexDigit (n div 16), hexDigit (n mod 16)]"
proof -
  from assms have "n div 16 < 16" by simp
  then have "toString16 (n div 16) = [hexDigit (n div 16)]" by (rule toString16_small)
  moreover have "toString16 n = toString16 (n div 16) @ [hexDigit (n mod 16)]"
    using assms(1) by (subst toString16.simps) simp
  ultimately show ?thesis by simp
qed

lemma byteToHex_eq: "byteToHex w = [hexDigit (unat w div 16), hexDigit (unat w mod 16)]"
proof -
  have lt: "unat w < 256" using unsigned_less [of w] by simp
  show ?thesis
  proof (cases "unat w < 16")
    case True
    then show ?thesis
      by (simp add: byteToHex_def padStart_def toString16_small hexDigit_zero)
  next
    case False
    then show ?thesis using lt
      by (simp add: byteToHex_def padStart_def toString16_byte)
  qed
qed

lemma decode_byteToHex: "toUint8 (parseInt16 (byteToHex w)) = w"
proof -
  have lt: "unat w < 256" using unsigned_less [of w] by simp
  then have h: "unat w div 16 < 16" by simp
  have l: "unat w mod 16 < 16" by simp
  have "parseInt16 (byteToHex w) = Some (int (16 * (unat w div 16) + unat w mod 16))"
    unfolding byteToHex_eq
    by (rule parseInt16_pair [OF digitValue_hexDigit [OF h] digitValue_hexDigit [OF l]])
  also have "16 * (unat w div 16) + unat w mod 16 = unat w" by simp
  finally show ?thesis by (simp add: toUint8_def)
qed

lemma unat_of_nat_byte: "n < 256 \<Longrightarrow> unat (of_nat n :: u8) = n"
  by (simp add: unat_of_nat)

lemma encode_decode_pair:
  assumes "isHexChar c1" "isHexChar c2"
  shows "byteToHex (toUint8 (parseInt16 [c1, c2])) = [lowerChar c1, lowerChar c2]"
proof -
  from isHexChar_digitValue [OF assms(1)] obtain v1
    where v1: "digitValue c1 = Some v1" "v1 < 16" "hexDigit v1 = lowerChar c1" by blast
  from isHexChar_digitValue [OF assms(2)] obtain v2
    where v2: "digitValue c2 = Some v2" "v2 < 16" "hexDigit v2 = lowerChar c2" by blast
  define n where "n = 16 * v1 + v2"
  have n: "n < 256" "n div 16 = v1" "n mod 16 = v2"
    using v1(2) v2(2) by (simp_all add: n_def)
  have "parseInt16 [c1, c2] = Some (int n)"
    unfolding n_def by (rule parseInt16_pair [OF v1(1) v2(1)])
  then have "toUint8 (parseInt16 [c1, c2]) = (of_nat n :: u8)"
    by (simp add: toUint8_def)
  then show ?thesis
    using n v1(3) v2(3) by (simp add: byteToHex_eq unat_of_nat_byte)
qed

subsection \<open>Round trips\<close>

lemma length_bytesToHex: "length (bytesToHex b) = 2 * length b"
  by (induction b) (simp_all add: bytesToHex_def byteToHex_eq)

lemma hexToBytes_bytesToHex: "hexToBytes (bytesToHex b) = b"
proof (induction b)
  case Nil
  show ?case by (simp add: bytesToHex_def hexToBytes_Nil)
next
  case (Cons w b)
  have "bytesToHex (w # b) = hexDigit (unat w div 16) # hexDigit (unat w mod 16) # bytesToHex b"
    by (simp add: bytesToHex_def byteToHex_eq)
  then have "hexToBytes (bytesToHex (w # b)) =
      toUint8 (parseInt16 [hexDigit (unat w div 16), hexDigit (unat w mod 16)]) #
      hexToBytes (bytesToHex b)"
    by (simp only: hexToBytes_Cons2)
  then show ?case using decode_byteToHex [of w] Cons.IH by (simp add: byteToHex_eq)
qed

lemma bytesToHex_hexToBytes:
  "validHex s \<Longrightarrow> bytesToHex (hexToBytes s) = lowercase s"
proof (induction s rule: induct_list012)
  case 1
  show ?case by (simp add: hexToBytes_Nil bytesToHex_def lowercase_def)
next
  case (2 c)
  then show ?case by (simp add: validHex_def)
next
  case (3 c1 c2 s)
  from "3.prems" have hex: "isHexChar c1" "isHexChar c2" and rest: "validHex s"
    by (simp_all add: validHex_def)
  have "bytesToHex (hexToBytes (c1 # c2 # s)) =
      byteToHex (toUint8 (parseInt16 [c1, c2])) @ bytesToHex (hexToBytes s)"
    by (simp add: hexToBytes_Cons2 bytesToHex_def)
  also have "\<dots> = [lowerChar c1, lowerChar c2] @ lowercase s"
    using encode_decode_pair [OF hex] "3.IH"(1) [OF rest] by simp
  finally show ?case by (simp add: lowercase_def)
qed

lemma hexToBytes_repeat:
  "hexToBytes (concat (replicate n [a, b])) = replicate n (toUint8 (parseInt16 [a, b]))"
  by (induction n) (simp_all add: hexToBytes_Nil hexToBytes_Cons2)

lemma bytesToHex_append: "bytesToHex (xs @ ys) = bytesToHex xs @ bytesToHex ys"
  by (simp add: bytesToHex_def)

lemma bytesToHex_replicate: "bytesToHex (replicate n w) = concat (replicate n (byteToHex w))"
  by (induction n) (simp_all add: bytesToHex_def)

lemma getKeyPairFromDerivative_fits:
  assumes "length (hexToBytes (secretKey d)) \<le> 64"
    and "length (hexToBytes (chainCode d)) \<le> 32"
    and "length (hexToBytes (publicKey d)) \<le> 32"
  shows "\<exists>ext. length ext = 96 \<and>
     getKeyPairFromDerivative d =
       Inr \<lparr> pairSecretKey =
               \<lparr> keyType = ''priv'', keyFormat = ''hex'',
                 keyValue = bytesToHex (ext @ hexToBytes (publicKey d) @
                              replicate (32 - length (hexToBytes (publicKey d))) 0) \<rparr>,
             pairPublicKey = \<lparr> keyType = ''pub'', keyFormat = ''hex'', keyValue = publicKey d \<rparr> \<rparr>"
proof -
  from assemble_fits [OF assms] obtain ext where ext: "length ext = 96"
    "assembleFullKeypair (hexToBytes (secretKey d)) (hexToBytes (chainCode d))
       (hexToBytes (publicKey d)) =
     Inr (ext @ hexToBytes (publicKey d) @
          replicate (32 - length (hexToBytes (publicKey d))) 0)"
    by blast
  show ?thesis
    by (rule exI [of _ ext]) (simp add: getKeyPairFromDerivative_def ext)
qed

lemma getKeyPairFromDerivative_overflow:
  assumes "64 < length (hexToBytes (secretKey d)) \<or> 32 < length (hexToBytes (chainCode d)) \<or>
    32 < length (hexToBytes (publicKey d))"
  shows "getKeyPairFromDerivative d =
    Inl (Error ''Failed to derive key pair from derivative: '' RangeError)"
  using assemble_overflow [OF assms] by (simp add: getKeyPairFromDerivative_def)

subsection \<open>The curve library of the specification at the scalar 1\<close>

lemma hexToBytes_append:
  "even (length a) \<Longrightarrow> hexToBytes (a @ b) = hexToBytes a @ hexToBytes b"
  by (induction a rule: induct_list012) (simp_all add: hexToBytes_Nil hexToBytes_Cons2)

lemma length_repeat_pair: "length (concat (replicate n [a, b])) = 2 * n"
  by (induction n) simp_all

lemma validHex_append: "validHex a \<Longrightarrow> validHex b \<Longrightarrow> validHex (a @ b)"
  by (simp add: validHex_def)

lemma validHex_repeat: "validHex [a, b] \<Longrightarrow> validHex (concat (replicate n [a, b]))"
  by (induction n) (simp_all add: validHex_def)

lemma bytesToNat_zeros: "bytesToNat (replicate n 0 @ bytes) = bytesToNat bytes"
  by (induction n) (simp_all add: bytesToNat_def)

lemma specPrivateKey_one: "specPrivateKey (concat (replicate 31 ''00'') @ ''01'') = Inr 1"
proof -
  have v: "validHex ''00''" "validHex ''01''" by code_simp+
  have d: "toUint8 (parseInt16 ''00'') = 0" "hexToBytes ''01'' = [1]" by code_simp+
  have "validHex (concat (replicate 31 ''00'') @ ''01'')"
    by (intro validHex_append validHex_repeat v)
  moreover have "hexToBytes (concat (replicate 31 ''00'') @ ''01'') = replicate 31 0 @ [1]"
    by (simp add: hexToBytes_append hexToBytes_repeat d length_repeat_pair)
  moreover have "bytesToNat (replicate 31 0 @ [1]) = 1"
    by (simp only: bytesToNat_zeros) (simp add: bytesToNat_def)
  ultimately show ?thesis
    by (simp add: specPrivateKey_def curveN_def)
qed

lemma scalarMult_0: "scalarMult 0 P = None"
  by (simp add: scalarMult.simps)
lemma scalarMult_1: "scalarMult (Suc 0) (Some P) = Some P"
  by (subst scalarMult.simps) (simp add: scalarMult_0)
lemma specFromPrivateKey_one: "specFromPrivateKey 1 = Inr curveG"
  by (simp add: specFromPrivateKey_def scalarMult_1)

lemma compressedHex_generator: "compressedHex curveG = ''0279be667ef9dcbbac55a06295ce870b07029bfcdb2dce28d959f2815b16f81798''"
proof -
  have upt: "[0 ..< 32] = [0, 1, 2, 3, 4, 5, 6, 7, 8, 9, 10, 11, 12, 13, 14, 15, 16, 17, 18, 19, 20,
      21, 22, 23, 24, 25, 26, 27, 28, 29, 30, 31 :: nat]"
    by code_simp
  have "natToBytes32 (nat (fst curveG)) =
    [0x79, 0xbe, 0x66, 0x7e, 0xf9, 0xdc, 0xbb, 0xac, 0x55, 0xa0, 0x62, 0x95, 0xce, 0x87, 0x0b, 0x07,
     0x02, 0x9b, 0xfc, 0xdb, 0x2d, 0xce, 0x28, 0xd9, 0x59, 0xf2, 0x81, 0x5b, 0x16, 0xf8, 0x17, 0x98]"
    by (simp add: natToBytes32_def curveG_def upt)
  moreover have "bytesToHex [0x79, 0xbe, 0x66, 0x7e, 0xf9, 0xdc, 0xbb, 0xac, 0x55, 0xa0, 0x62, 0x95, 0xce, 0x87, 0x0b, 0x07,
     0x02, 0x9b, 0xfc, 0xdb, 0x2d, 0xce, 0x28, 0xd9, 0x59, 0xf2, 0x81, 0x5b, 0x16, 0xf8, 0x17, 0x98] =
     ''79be667ef9dcbbac55a06295ce870b07029bfcdb2dce28d959f2815b16f81798''"
    by (simp add: bytesToHex_def byteToHex_eq hexDigit_def)
  moreover have "even (snd curveG)" by (simp add: curveG_def)
  ultimately show ?thesis by (simp add: compressedHex_def)
qed

subsection \<open>The store\<close>

lemma lookup_append_left: "r < length st \<Longrightarrow> lookup (st @ g) r = lookup st r"
  by (simp add: lookup_def nth_append)

lemma lookup_Some_less: "lookup st r = Some c \<Longrightarrow> r < length st"
  by (simp add: lookup_def split: if_splits)

lemma lookup_append_Some: "lookup st r = Some c \<Longrightarrow> lookup (st @ g) r = Some c"
  using lookup_Some_less [of st r c] by (simp add: lookup_append_left)

lemma lookup_fresh: "lookup (st @ c # g) (length st) = Some c"
  by (simp add: lookup_def)

lemma lookup_update_same:
  "r < length st \<Longrightarrow> lookup (st[r := c]) r = Some c"
  by (simp add: lookup_def)

lemma lookup_update_other:
  "r \<noteq> r' \<Longrightarrow> lookup (st[r := c]) r' = lookup st r'"
  by (simp add: lookup_def)

lemma getField_derivative:
  "lookup st d = Some (DerivativeCell dv) \<Longrightarrow> getField d f st = (Inr (f dv), st)"
  by (simp add: getField_def)

lemma getField_TypeError:
  "\<forall>dv. lookup st d \<noteq> Some (DerivativeCell dv) \<Longrightarrow> getField d f st = (Inl TypeError, st)"
  by (auto simp: getField_def split: option.splits cell.splits)

lemma hexLoopIn_eq:
  "lookup st d = Some (DerivativeCell dv) \<Longrightarrow> lookup st b = Some (Uint8ArrayCell bytes) \<Longrightarrow>
   hexLoopIn d f i b st = (Inr (), st[b := Uint8ArrayCell (hexLoop (f dv) i bytes)])"
proof (induction "f dv" i bytes arbitrary: st rule: hexLoop.induct)
  case (1 i bytes)
  have bd: "b \<noteq> d" using "1.prems" by auto
  have b: "b < length st" using "1.prems"(2) by (rule lookup_Some_less)
  show ?case
  proof (cases "i < length (f dv)")
    case False
    have "st[b := Uint8ArrayCell bytes] = st"
      using "1.prems"(2) b by (simp add: lookup_def list_update_same_conv)
    with False show ?thesis
      using "1.prems"(1)
      by (simp add: hexLoopIn.simps [of d f i b st] getField_derivative hexLoop.simps [of "f dv" i])
  next
    case True
    let ?v = "toUint8 (parseInt16 (substr (f dv) i 2))"
    let ?st' = "st[b := Uint8ArrayCell (u8_store bytes (i div 2) ?v)]"
    have st': "storeElement b (i div 2) ?v st = ?st'"
      using "1.prems"(2) by (simp add: storeElement_def)
    have d': "lookup ?st' d = Some (DerivativeCell dv)"
      using "1.prems"(1) bd by (simp add: lookup_update_other)
    have b': "lookup ?st' b = Some (Uint8ArrayCell (u8_store bytes (i div 2) ?v))"
      using b by (simp add: lookup_update_same)
    have "hexLoopIn d f i b st = hexLoopIn d f (i + 2) b ?st'"
      using True "1.prems"(1) st'
      by (simp add: hexLoopIn.simps [of d f i b st] getField_derivative)
    also have "\<dots> = (Inr (), ?st'[b := Uint8ArrayCell
        (hexLoop (f dv) (i + 2) (u8_store bytes (i div 2) ?v))])"
      by (rule "1.hyps" [OF True d' b'])
    also have "hexLoop (f dv) (i + 2) (u8_store bytes (i div 2) ?v) = hexLoop (f dv) i bytes"
      using True by (simp add: hexLoop.simps [of "f dv" i])
    finally show ?thesis by simp
  qed
qed

lemma decodeField_eq:
  assumes "lookup st d = Some (DerivativeCell dv)"
  shows "decodeField d f st = (Inr (length st), st @ [Uint8ArrayCell (hexToBytes (f dv))])"
proof -
  let ?st1 = "st @ [Uint8ArrayCell (replicate (length (f dv) div 2) 0)]"
  have d1: "lookup ?st1 d = Some (DerivativeCell dv)"
    using assms by (rule lookup_append_Some)
  have b1: "lookup ?st1 (length st) = Some (Uint8ArrayCell (replicate (length (f dv) div 2) 0))"
    by (rule lookup_fresh)
  have "hexLoopIn d f 0 (length st) ?st1 =
      (Inr (), ?st1[length st := Uint8ArrayCell (hexToBytes (f dv))])"
    unfolding hexToBytes_def by (rule hexLoopIn_eq [OF d1 b1])
  then show ?thesis
    using assms
    by (simp add: decodeField_def bindIn_def getField_derivative newUint8Array_def)
qed

lemma decodeField_TypeError:
  assumes "\<forall>dv. lookup st d \<noteq> Some (DerivativeCell dv)"
  shows "decodeField d f st = (Inl TypeError, st)"
  using getField_TypeError [OF assms] by (simp add: decodeField_def bindIn_def)

lemma arrayOf_append:
  "arrayOf (st @ cs) r = (if r < length st then arrayOf st r else arrayOf cs (r - length st))"
  by (auto simp: arrayOf_def lookup_def nth_append)

lemma list_update_numeral: "(x # xs)[numeral k := y] = x # xs[pred_numeral k := y]"
  by (simp add: numeral_eq_Suc)

lemma nth_cell_numeral: "arrayOf (c # cs) (numeral k) = arrayOf cs (pred_numeral k)"
  by (simp add: arrayOf_def lookup_def numeral_eq_Suc)

lemma arrayOf_Cons_0: "arrayOf (Uint8ArrayCell bytes # cs) 0 = bytes"
  by (simp add: arrayOf_def lookup_def)

lemma arrayOf_Cons_Suc: "arrayOf (c # cs) (Suc k) = arrayOf cs k"
  by (simp add: arrayOf_def lookup_def)

lemma getKeyPairFromDerivativeIn_derivative:
  assumes d: "lookup st d = Some (DerivativeCell dv)"
  shows "\<exists>g. getKeyPairFromDerivativeIn d st = (getKeyPairFromDerivative dv, st @ g)"
proof -
  let ?sk = "hexToBytes (secretKey dv)"
  let ?cc = "hexToBytes (chainCode dv)"
  let ?pk = "hexToBytes (publicKey dv)"
  let ?s1 = "st @ [Uint8ArrayCell ?sk]"
  let ?s2 = "st @ [Uint8ArrayCell ?sk, Uint8ArrayCell ?cc]"
  let ?s3 = "st @ [Uint8ArrayCell ?sk, Uint8ArrayCell ?cc, Uint8ArrayCell ?pk]"
  have e1: "decodeField d secretKey st = (Inr (length st + 0), ?s1)"
    using decodeField_eq [OF d, of secretKey] by simp
  have d1: "lookup ?s1 d = Some (DerivativeCell dv)" using d by (rule lookup_append_Some)
  have e2: "decodeField d chainCode ?s1 = (Inr (length st + 1), ?s2)"
    using decodeField_eq [OF d1, of chainCode] by simp
  have d2: "lookup ?s2 d = Some (DerivativeCell dv)" using d by (rule lookup_append_Some)
  have e3: "decodeField d publicKey ?s2 = (Inr (length st + 2), ?s3)"
    using decodeField_eq [OF d2, of publicKey] by simp
  have dg: "getField d publicKey (st @ g) = (Inr (publicKey dv), st @ g)" for g
    using lookup_append_Some [OF d, of g] by (rule getField_derivative)
  show ?thesis
    unfolding getKeyPairFromDerivativeIn_def getKeyPairFromDerivative_def
      assembleFullKeypair_def Let_def
    apply (simp only: catchIn_def bindIn_def e1 e2 e3 prod.case sum.case)
    apply (simp add: newUint8Array_def setIn_def arrayOf_append list_update_append
        list_update_numeral nth_cell_numeral arrayOf_Cons_0 arrayOf_Cons_Suc dg andThen_def
        split: sum.splits)
    done
qed

lemma getKeyPairFromDerivativeIn_TypeError:
  assumes "\<forall>dv. lookup st d \<noteq> Some (DerivativeCell dv)"
  shows "getKeyPairFromDerivativeIn d st =
    (Inl (Error ''Failed to derive key pair from derivative: '' TypeError), st)"
  using decodeField_TypeError [OF assms, of secretKey]
  by (simp add: getKeyPairFromDerivativeIn_def catchIn_def bindIn_def)

lemma getKeyPairFromDerivativeIn_frame:
  "\<exists>g. snd (getKeyPairFromDerivativeIn d st) = st @ g \<and>
       lookup (st @ g) d = lookup st d"
proof (cases "\<exists>dv. lookup st d = Some (DerivativeCell dv)")
  case True
  then obtain dv where dv: "lookup st d = Some (DerivativeCell dv)" by blast
  from getKeyPairFromDerivativeIn_derivative [OF dv] obtain g
    where "getKeyPairFromDerivativeIn d st = (getKeyPairFromDerivative dv, st @ g)" by blast
  then have "snd (getKeyPairFromDerivativeIn d st) = st @ g" by simp
  moreover have "lookup (st @ g) d = lookup st d"
    using lookup_append_Some [OF dv, of g] dv by simp
  ultimately show ?thesis by blast
next
  case False
  then have "snd (getKeyPairFromDerivativeIn d st) = st @ []"
    by (simp add: getKeyPairFromDerivativeIn_TypeError)
  then show ?thesis by (intro exI [of _ "[]"]) simp
qed

lemma getKeyPairFromDerivativeIn_result:
  "fst (getKeyPairFromDerivativeIn d st) =
     (case lookup st d of
        Some (DerivativeCell dv) \<Rightarrow> getKeyPairFromDerivative dv
      | _ \<Rightarrow> Inl (Error ''Failed to derive key pair from derivative: '' TypeError))"
proof (cases "\<exists>dv. lookup st d = Some (DerivativeCell dv)")
  case True
  then obtain dv where dv: "lookup st d = Some (DerivativeCell dv)" by blast
  from getKeyPairFromDerivativeIn_derivative [OF dv] obtain g
    where "getKeyPairFromDerivativeIn d st = (getKeyPairFromDerivative dv, st @ g)" by blast
  then show ?thesis using dv by simp
next
  case False
  then have "fst (getKeyPairFromDerivativeIn d st) =
      Inl (Error ''Failed to derive key pair from derivative: '' TypeError)"
    by (simp add: getKeyPairFromDerivativeIn_TypeError)
  with False show ?thesis by (auto split: option.splits cell.splits)
qed

lemma getPublicKeyFromSecretKeyIn_key:
  "lookup st k = Some (KeyCell sk) \<Longrightarrow>
   getPublicKeyFromSecretKeyIn lib k st = (getPublicKeyFromSecretKey lib sk, st)"
  by (simp add: getPublicKeyFromSecretKeyIn_def getPublicKeyFromSecretKey_def catchIn_def
      bindIn_def getKeyValue_def split: sum.splits)

lemma getPublicKeyFromSecretKeyIn_frame: "snd (getPublicKeyFromSecretKeyIn lib k st) = st"
  by (simp add: getPublicKeyFromSecretKeyIn_def catchIn_def bindIn_def getKeyValue_def
      split: sum.splits option.splits cell.splits)

lemma hexDigit_lower: "k < 16 \<Longrightarrow> hexDigit k \<in> set ''0123456789abcdef''"
  unfolding hexDigit_def by (rule nth_mem) simp

lemma byteToHex_lower: "list_all (\<lambda>c. c \<in> set ''0123456789abcdef'') (byteToHex w)"
proof -
  have "unat w < 256" using unsigned_less [of w] by simp
  then have "unat w div 16 < 16" "unat w mod 16 < 16" by simp_all
  then show ?thesis
    using hexDigit_lower [of "unat w div 16"] hexDigit_lower [of "unat w mod 16"]
    by (simp add: byteToHex_eq)
qed

lemma bytesToHex_lower: "list_all (\<lambda>c. c \<in> set ''0123456789abcdef'') (bytesToHex b)"
  by (induction b) (simp_all add: bytesToHex_def byteToHex_lower del: set_simps)

section \<open>The claims\<close>

text \<open>
  Claim C1, as amended. For every derivative whose decoded secret key, chain code and
  public key are 32 bytes each, the call returns a key pair whose secret key is tagged
  \<open>priv\<close> and \<open>hex\<close> and encodes the 128 bytes made of the secret key, the secret key
  again, the chain code and the public key, in this order, and whose public key is
  tagged \<open>pub\<close> and \<open>hex\<close> and carries the public key of the derivative as it came.
\<close>

theorem getKeyPairFromDerivative_layout:
  assumes "length (hexToBytes (secretKey d)) = 32"
    and "length (hexToBytes (chainCode d)) = 32"
    and "length (hexToBytes (publicKey d)) = 32"
  shows "getKeyPairFromDerivative d =
     Inr \<lparr> pairSecretKey =
             \<lparr> keyType = ''priv'', keyFormat = ''hex'',
               keyValue = bytesToHex (hexToBytes (secretKey d) @ hexToBytes (secretKey d) @
                                      hexToBytes (chainCode d) @ hexToBytes (publicKey d)) \<rparr>,
           pairPublicKey = \<lparr> keyType = ''pub'', keyFormat = ''hex'', keyValue = publicKey d \<rparr> \<rparr>"
  using assemble_exact [OF assms] by (simp add: getKeyPairFromDerivative_def)

text \<open>At the secret key \<open>11\<close> repeated 32 times, the chain code \<open>22\<close> repeated
  32 times and the 32-byte public key \<open>33\<close> repeated 32 times, the value is these
  strings in the order of the layout.\<close>

theorem getKeyPairFromDerivative_layout_witness:
  "length (hexToBytes (concat (replicate 32 ''11''))) = 32 \<and>
   length (hexToBytes (concat (replicate 32 ''22''))) = 32 \<and>
   length (hexToBytes (concat (replicate 32 ''33''))) = 32 \<and>
   getKeyPairFromDerivative
     \<lparr> secretKey = concat (replicate 32 ''11''),
       chainCode = concat (replicate 32 ''22''),
       publicKey = concat (replicate 32 ''33'') \<rparr> =
   Inr \<lparr> pairSecretKey =
           \<lparr> keyType = ''priv'', keyFormat = ''hex'',
             keyValue = concat (replicate 32 ''11'') @ concat (replicate 32 ''11'') @
                        concat (replicate 32 ''22'') @ concat (replicate 32 ''33'') \<rparr>,
         pairPublicKey =
           \<lparr> keyType = ''pub'', keyFormat = ''hex'', keyValue = concat (replicate 32 ''33'') \<rparr> \<rparr>"
proof -
  have b: "toUint8 (parseInt16 ''11'') = 0x11" "toUint8 (parseInt16 ''22'') = 0x22"
    "toUint8 (parseInt16 ''33'') = 0x33"
    by code_simp+
  have h: "byteToHex 0x11 = ''11''" "byteToHex 0x22 = ''22''" "byteToHex 0x33 = ''33''"
    by code_simp+
  show ?thesis
    using getKeyPairFromDerivative_layout
      [of "\<lparr> secretKey = concat (replicate 32 ''11''), chainCode = concat (replicate 32 ''22''),
             publicKey = concat (replicate 32 ''33'') \<rparr>"]
    by (simp add: hexToBytes_repeat bytesToHex_append bytesToHex_replicate b h)
qed

text \<open>The claim as first stated fails at its own example: a public key of 33 bytes
  does not fit at offset 96 of the 128 bytes, and the call is rejected.\<close>

theorem getKeyPairFromDerivative_33_byte_counterexample:
  "length (hexToBytes (concat (replicate 32 ''11''))) = 32 \<and>
   length (hexToBytes (concat (replicate 32 ''22''))) = 32 \<and>
   length (hexToBytes (''03'' @ concat (replicate 32 ''33''))) = 33 \<and>
   getKeyPairFromDerivative
     \<lparr> secretKey = concat (replicate 32 ''11''),
       chainCode = concat (replicate 32 ''22''),
       publicKey = ''03'' @ concat (replicate 32 ''33'') \<rparr> =
   Inl (Error ''Failed to derive key pair from derivative: '' RangeError)"
proof -
  have "length (hexToBytes (''03'' @ concat (replicate 32 ''33''))) = 33"
    by (simp add: hexToBytes_Cons2 hexToBytes_repeat)
  then have "assembleFullKeypair (hexToBytes (concat (replicate 32 ''11'')))
      (hexToBytes (concat (replicate 32 ''22'')))
      (hexToBytes (''03'' @ concat (replicate 32 ''33''))) = Inl RangeError"
    by (intro assemble_overflow) simp
  then show ?thesis
    by (simp add: getKeyPairFromDerivative_def hexToBytes_Cons2 hexToBytes_repeat)
qed

text \<open>
  Claim C2, as amended. The method checks no 32, 32, 33 shape. It fails, with the error
  of its \<open>catch\<close> block around a \<open>RangeError\<close>, for exactly the derivatives whose
  decoded secret key is longer than 64 bytes, whose decoded chain code is longer than
  32 bytes or whose decoded public key is longer than 32 bytes; for every other
  derivative it assembles 128 bytes and returns them as the \<open>priv\<close> key.
\<close>

theorem getKeyPairFromDerivative_fails_iff_overflow:
  "(if 64 < length (hexToBytes (secretKey d)) \<or> 32 < length (hexToBytes (chainCode d)) \<or>
       32 < length (hexToBytes (publicKey d))
    then getKeyPairFromDerivative d =
           Inl (Error ''Failed to derive key pair from derivative: '' RangeError)
    else \<exists>buf. length buf = 128 \<and>
           getKeyPairFromDerivative d =
             Inr \<lparr> pairSecretKey =
                     \<lparr> keyType = ''priv'', keyFormat = ''hex'', keyValue = bytesToHex buf \<rparr>,
                   pairPublicKey =
                     \<lparr> keyType = ''pub'', keyFormat = ''hex'', keyValue = publicKey d \<rparr> \<rparr>)"
proof (cases "64 < length (hexToBytes (secretKey d)) \<or> 32 < length (hexToBytes (chainCode d)) \<or>
       32 < length (hexToBytes (publicKey d))")
  case True
  then show ?thesis using getKeyPairFromDerivative_overflow [OF True] by simp
next
  case False
  then have le: "length (hexToBytes (secretKey d)) \<le> 64" "length (hexToBytes (chainCode d)) \<le> 32"
    "length (hexToBytes (publicKey d)) \<le> 32"
    by simp_all
  from getKeyPairFromDerivative_fits [OF le] obtain ext where ext: "length ext = 96"
    "getKeyPairFromDerivative d =
       Inr \<lparr> pairSecretKey =
               \<lparr> keyType = ''priv'', keyFormat = ''hex'',
                 keyValue = bytesToHex (ext @ hexToBytes (publicKey d) @
                              replicate (32 - length (hexToBytes (publicKey d))) 0) \<rparr>,
             pairPublicKey = \<lparr> keyType = ''pub'', keyFormat = ''hex'', keyValue = publicKey d \<rparr> \<rparr>"
    by blast
  have "length (ext @ hexToBytes (publicKey d) @
      replicate (32 - length (hexToBytes (publicKey d))) 0) = 128"
    using ext(1) le(3) by simp
  with ext(2) have "\<exists>buf. length buf = 128 \<and>
           getKeyPairFromDerivative d =
             Inr \<lparr> pairSecretKey =
                     \<lparr> keyType = ''priv'', keyFormat = ''hex'', keyValue = bytesToHex buf \<rparr>,
                   pairPublicKey =
                     \<lparr> keyType = ''pub'', keyFormat = ''hex'', keyValue = publicKey d \<rparr> \<rparr>"
    by blast
  then show ?thesis using False by simp
qed

text \<open>A secret key of 65 bytes is rejected.\<close>

theorem getKeyPairFromDerivative_fails_iff_overflow_witness:
  "64 < length (hexToBytes (concat (replicate 65 ''11''))) \<and>
   getKeyPairFromDerivative
     \<lparr> secretKey = concat (replicate 65 ''11''), chainCode = ''22'', publicKey = ''33'' \<rparr> =
   Inl (Error ''Failed to derive key pair from derivative: '' RangeError)"
  using getKeyPairFromDerivative_fails_iff_overflow
    [of "\<lparr> secretKey = concat (replicate 65 ''11''), chainCode = ''22'', publicKey = ''33'' \<rparr>"]
  by (simp add: hexToBytes_repeat)

text \<open>The claim as first stated fails: a derivative of three single bytes is not
  rejected.\<close>

theorem getKeyPairFromDerivative_short_counterexample:
  "length (hexToBytes ''11'') = 1 \<and> length (hexToBytes ''22'') = 1 \<and>
   length (hexToBytes ''33'') = 1 \<and>
   getKeyPairFromDerivative \<lparr> secretKey = ''11'', chainCode = ''22'', publicKey = ''33'' \<rparr> =
   Inr \<lparr> pairSecretKey =
           \<lparr> keyType = ''priv'', keyFormat = ''hex'',
             keyValue = ''11'' @ concat (replicate 31 ''00'') @ ''11'' @ concat (replicate 31 ''00'') @
                        ''22'' @ concat (replicate 31 ''00'') @ ''33'' @ concat (replicate 31 ''00'') \<rparr>,
         pairPublicKey = \<lparr> keyType = ''pub'', keyFormat = ''hex'', keyValue = ''33'' \<rparr> \<rparr>"
  by code_simp

text \<open>
  Claim C3, as amended. The decoding loop never fails. For every string \<open>s\<close> it yields
  \<open>length s div 2\<close> bytes; byte \<open>k\<close> is what \<open>parseInt(s.substr(2 * k, 2), 16)\<close>
  stores into a \<open>Uint8Array\<close> element, which is 0 when the parse is \<open>NaN\<close>; the last
  character of a string of odd length is dropped.
\<close>

theorem hexToBytes_never_fails:
  "length (hexToBytes s) = length s div 2 \<and>
   hexToBytes s = map (\<lambda>k. toUint8 (parseInt16 (substr s (2 * k) 2))) [0 ..< length s div 2] \<and>
   toUint8 None = 0"
  by (simp add: hexToBytes_map toUint8_def)

text \<open>The claim as first stated fails: a string of odd length and a string without any
  hexadecimal digit are both decoded.\<close>

theorem hexToBytes_malformed_counterexample:
  "odd (length ''abc'') \<and> hexToBytes ''abc'' = [0xAB] \<and>
   \<not> list_ex isHexChar ''zz'' \<and> hexToBytes ''zz'' = [0]"
  by code_simp

text \<open>
  Claim C4, as amended. The method never reads the format tag, nor the type tag, of its
  argument. Whatever the curve library, the outcome for a secret key, the public key
  returned or the error raised, is the outcome for the same value under any other
  format tag; the value goes, undecoded, to the constructor \<open>PrivateKey\<close> of the
  library. No format is refused as unsupported.
\<close>

theorem getPublicKeyFromSecretKey_ignores_format:
  "getPublicKeyFromSecretKey lib (k\<lparr> keyFormat := f, keyType := t \<rparr>) =
     getPublicKeyFromSecretKey lib k \<and>
   getPublicKeyFromSecretKey lib k =
     (case andThen (PrivateKey lib (keyValue k)) (\<lambda>privKey.
           andThen (fromPrivateKey lib privKey) (publicKeyToString lib)) of
        Inl error \<Rightarrow> Inl (Error ''Failed to derive public key: '' error)
      | Inr v \<Rightarrow> Inr \<lparr> keyType = ''pub'', keyFormat = ''hex'', keyValue = v \<rparr>)"
  by (simp add: getPublicKeyFromSecretKey_def andThen_def split: sum.splits)

text \<open>The claim as first stated fails: with the curve library of the specification,
  the scalar 1 under the format tag \<open>base64\<close> is not refused; the call returns the
  generator of the curve.\<close>

theorem getPublicKeyFromSecretKey_format_counterexample:
  "keyFormat \<lparr> keyType = ''priv'', keyFormat = ''base64'',
       keyValue = concat (replicate 31 ''00'') @ ''01'' \<rparr> \<noteq> ''hex'' \<and>
   getPublicKeyFromSecretKey specKaspCrypto
     \<lparr> keyType = ''priv'', keyFormat = ''base64'',
       keyValue = concat (replicate 31 ''00'') @ ''01'' \<rparr> =
   Inr \<lparr> keyType = ''pub'', keyFormat = ''hex'',
         keyValue = ''0279be667ef9dcbbac55a06295ce870b07029bfcdb2dce28d959f2815b16f81798'' \<rparr>"
  using specPrivateKey_one specFromPrivateKey_one compressedHex_generator
  by (simp add: getPublicKeyFromSecretKey_def specKaspCrypto_def andThen_def)

text \<open>
  Claim C5. The encoding writes two characters for each byte, each a digit or a letter
  from \<open>a\<close> to \<open>f\<close>. Decoding the encoding of
  a byte sequence gives the sequence back, and encoding the decoding of a valid
  hexadecimal string gives the string in lower case.
\<close>

theorem codec_round_trip:
  "length (bytesToHex b) = 2 * length b \<and>
   list_all (\<lambda>c. c \<in> set ''0123456789abcdef'') (bytesToHex b) \<and>
   hexToBytes (bytesToHex b) = b \<and>
   (validHex s \<longrightarrow> bytesToHex (hexToBytes s) = lowercase s)"
  using length_bytesToHex [of b] bytesToHex_lower [of b] hexToBytes_bytesToHex [of b]
    bytesToHex_hexToBytes [of s]
  by blast

theorem codec_round_trip_witness:
  "validHex ''0AfF'' \<and> hexToBytes (bytesToHex [0x0A, 0xFF]) = [0x0A, 0xFF] \<and>
   bytesToHex (hexToBytes ''0AfF'') = ''0aff''"
proof -
  have v: "validHex ''0AfF''" by code_simp
  have l: "lowercase ''0AfF'' = ''0aff''" by code_simp
  show ?thesis using codec_round_trip [of "[0x0A, 0xFF]" "''0AfF''"] v l by metis
qed

text \<open>
  Claim C6. Two calls with the same derivative return the same key pair, tags, formats
  and values alike, or the same error. The second call runs in the store that the first
  call left behind, and nothing of it reaches the result: the result of a call is
  determined by the object its argument refers to, in whatever store.
\<close>

theorem getKeyPairFromDerivative_deterministic:
  "fst (getKeyPairFromDerivativeIn d (snd (getKeyPairFromDerivativeIn d st))) =
     fst (getKeyPairFromDerivativeIn d st) \<and>
   (lookup st1 d1 = lookup st2 d2 \<longrightarrow>
      fst (getKeyPairFromDerivativeIn d1 st1) = fst (getKeyPairFromDerivativeIn d2 st2))"
proof -
  from getKeyPairFromDerivativeIn_frame [of d st] obtain g
    where g: "snd (getKeyPairFromDerivativeIn d st) = st @ g" "lookup (st @ g) d = lookup st d"
    by blast
  have "fst (getKeyPairFromDerivativeIn d (st @ g)) = fst (getKeyPairFromDerivativeIn d st)"
    by (simp only: getKeyPairFromDerivativeIn_result g(2))
  then show ?thesis
    by (simp add: g(1) getKeyPairFromDerivativeIn_result)
qed

theorem getKeyPairFromDerivative_deterministic_witness:
  "lookup [DerivativeCell \<lparr> secretKey = ''11'', chainCode = ''22'', publicKey = ''33'' \<rparr>] 0 =
     lookup [Uint8ArrayCell [1, 2, 3],
             DerivativeCell \<lparr> secretKey = ''11'', chainCode = ''22'', publicKey = ''33'' \<rparr>] 1 \<and>
   fst (getKeyPairFromDerivativeIn 0
     [DerivativeCell \<lparr> secretKey = ''11'', chainCode = ''22'', publicKey = ''33'' \<rparr>]) =
   fst (getKeyPairFromDerivativeIn 1
     [Uint8ArrayCell [1, 2, 3],
      DerivativeCell \<lparr> secretKey = ''11'', chainCode = ''22'', publicKey = ''33'' \<rparr>])"
proof -
  have l: "lookup [DerivativeCell \<lparr> secretKey = ''11'', chainCode = ''22'', publicKey = ''33'' \<rparr>] 0 =
     lookup [Uint8ArrayCell [1, 2, 3],
             DerivativeCell \<lparr> secretKey = ''11'', chainCode = ''22'', publicKey = ''33'' \<rparr>] 1"
    by (simp add: lookup_def)
  show ?thesis
    using l getKeyPairFromDerivative_deterministic
      [of 0 "[DerivativeCell \<lparr> secretKey = ''11'', chainCode = ''22'', publicKey = ''33'' \<rparr>]"
          "[DerivativeCell \<lparr> secretKey = ''11'', chainCode = ''22'', publicKey = ''33'' \<rparr>]" 0
          "[Uint8ArrayCell [1, 2, 3],
            DerivativeCell \<lparr> secretKey = ''11'', chainCode = ''22'', publicKey = ''33'' \<rparr>]" 1]
    by blast
qed

text \<open>
  Claim C7. For every secret key and unsigned transaction the method is to return a
  signed transaction. The body of the method is empty: every call returns
  \<open>undefined\<close>, so no signed transaction and no signature is produced.
\<close>

theorem signTransactionWithSecretKey_returns_undefined:
  "signTransactionWithSecretKey transaction k = Undefined"
  by (simp add: signTransactionWithSecretKey_def)

text \<open>
  Claim C8. The metadata has a main unit of 8 decimals and the standard derivation path
  \<open>m/84'/0'/0'/0/0\<close>: purpose 84, coin 0 and account 0 hardened, then chain 0 and
  index 0. The crypto configuration names the algorithm \<open>secp256k1\<close>. Both are
  constants: they take no argument and read no state.
\<close>

theorem metadata_and_configuration:
  "(\<exists>m u. getMetadata = Inr m \<and> map_of (units m) (mainUnit m) = Some u \<and> decimals u = 8 \<and>
      standardDerivationPath (account m) = ''m/84'/0'/0'/0/0'' \<and>
      standardDerivationPath (account m) =
        derivationPath [(84, True), (0, True), (0, True), (0, False), (0, False)]) \<and>
   getCryptoConfiguration = Inr \<lparr> algorithm = ''secp256k1'' \<rparr>"
proof -
  have "derivationPath [(84, True), (0, True), (0, True), (0, False), (0, False)] =
      ''m/84'/0'/0'/0/0''"
    by code_simp
  then show ?thesis by (simp add: getMetadata_def getCryptoConfiguration_def Let_def)
qed

text \<open>
  Claim C9, as amended. For every derivative whose three fields are valid hexadecimal
  strings, whose decoded public key is at most 32 bytes long, whose decoded secret key
  is at most 64 bytes long and whose decoded chain code is at most 32 bytes long, the
  call succeeds: the \<open>priv\<close> key encodes 128 bytes in which the decoded public key
  starts at offset 96 and every byte after it is zero.
\<close>

theorem getKeyPairFromDerivative_short_public_key:
  assumes "validHex (secretKey d)" and "validHex (chainCode d)" and "validHex (publicKey d)"
    and "length (hexToBytes (publicKey d)) \<le> 32"
    and "length (hexToBytes (secretKey d)) \<le> 64"
    and "length (hexToBytes (chainCode d)) \<le> 32"
  shows "\<exists>buf. length buf = 128 \<and>
     take (length (hexToBytes (publicKey d))) (drop 96 buf) = hexToBytes (publicKey d) \<and>
     drop (96 + length (hexToBytes (publicKey d))) buf =
       replicate (32 - length (hexToBytes (publicKey d))) 0 \<and>
     getKeyPairFromDerivative d =
       Inr \<lparr> pairSecretKey =
               \<lparr> keyType = ''priv'', keyFormat = ''hex'', keyValue = bytesToHex buf \<rparr>,
             pairPublicKey = \<lparr> keyType = ''pub'', keyFormat = ''hex'', keyValue = publicKey d \<rparr> \<rparr>"
proof -
  let ?pk = "hexToBytes (publicKey d)"
  from getKeyPairFromDerivative_fits [OF assms(5) assms(6) assms(4)]
  obtain ext where ext: "length ext = 96"
    "getKeyPairFromDerivative d =
       Inr \<lparr> pairSecretKey =
               \<lparr> keyType = ''priv'', keyFormat = ''hex'',
                 keyValue = bytesToHex (ext @ ?pk @ replicate (32 - length ?pk) 0) \<rparr>,
             pairPublicKey = \<lparr> keyType = ''pub'', keyFormat = ''hex'', keyValue = publicKey d \<rparr> \<rparr>"
    by blast
  let ?buf = "ext @ ?pk @ replicate (32 - length ?pk) 0"
  have "length ?buf = 128" using ext(1) assms(4) by simp
  moreover have "take (length ?pk) (drop 96 ?buf) = ?pk" using ext(1) by simp
  moreover have "drop (96 + length ?pk) ?buf = replicate (32 - length ?pk) 0"
    using ext(1) by simp
  ultimately show ?thesis using ext(2) by blast
qed

theorem getKeyPairFromDerivative_short_public_key_witness:
  "validHex (concat (replicate 32 ''11'')) \<and> validHex (concat (replicate 32 ''22'')) \<and>
   validHex ''3344'' \<and>
   length (hexToBytes ''3344'') \<le> 32 \<and>
   length (hexToBytes (concat (replicate 32 ''11''))) \<le> 64 \<and>
   length (hexToBytes (concat (replicate 32 ''22''))) \<le> 32 \<and>
   (\<exists>buf. length buf = 128 \<and>
      take 2 (drop 96 buf) = [0x33, 0x44] \<and>
      drop 98 buf = replicate 30 0 \<and>
      getKeyPairFromDerivative
        \<lparr> secretKey = concat (replicate 32 ''11''), chainCode = concat (replicate 32 ''22''),
          publicKey = ''3344'' \<rparr> =
      Inr \<lparr> pairSecretKey =
              \<lparr> keyType = ''priv'', keyFormat = ''hex'', keyValue = bytesToHex buf \<rparr>,
            pairPublicKey = \<lparr> keyType = ''pub'', keyFormat = ''hex'', keyValue = ''3344'' \<rparr> \<rparr>)"
proof -
  have pair: "validHex ''11''" "validHex ''22''" "validHex ''3344''"
    by code_simp+
  have pk: "hexToBytes ''3344'' = [0x33, 0x44]"
    by code_simp
  show ?thesis
    using getKeyPairFromDerivative_short_public_key
      [of "\<lparr> secretKey = concat (replicate 32 ''11''), chainCode = concat (replicate 32 ''22''),
             publicKey = ''3344'' \<rparr>"]
      validHex_repeat [OF pair(1), of 32] validHex_repeat [OF pair(2), of 32] pair(3)
    by (simp add: pk hexToBytes_repeat numeral_2_eq_2)
qed

text \<open>The claim as first stated fails: with three valid hexadecimal fields and an empty
  public key, a chain code of 33 bytes makes the call fail.\<close>

theorem getKeyPairFromDerivative_long_chain_code_counterexample:
  "validHex [] \<and> validHex (concat (replicate 33 ''22'')) \<and>
   length (hexToBytes []) \<le> 32 \<and>
   getKeyPairFromDerivative
     \<lparr> secretKey = [], chainCode = concat (replicate 33 ''22''), publicKey = [] \<rparr> =
   Inl (Error ''Failed to derive key pair from derivative: '' RangeError)"
proof -
  have pair: "validHex ''22''"
    by code_simp
  have "getKeyPairFromDerivative
     \<lparr> secretKey = [], chainCode = concat (replicate 33 ''22''), publicKey = [] \<rparr> =
   Inl (Error ''Failed to derive key pair from derivative: '' RangeError)"
    by (rule getKeyPairFromDerivative_overflow) (simp add: hexToBytes_repeat)
  then show ?thesis
    using validHex_repeat [OF pair, of 33] by (simp add: hexToBytes_Nil validHex_def)
qed

text \<open>
  Claim C10. Neither method changes an object that exists when it is called. After a
  call of \<open>getKeyPairFromDerivative\<close>, successful or not, every cell of the store of
  before is as it was, the derivative among them; the typed arrays of the call are new
  cells. A call of \<open>getPublicKeyFromSecretKey\<close> leaves the store as it is, the secret
  key with its type, format and value among the rest.
\<close>

theorem methods_preserve_inputs:
  "take (length st) (snd (getKeyPairFromDerivativeIn d st)) = st \<and>
   lookup (snd (getKeyPairFromDerivativeIn d st)) d = lookup st d \<and>
   snd (getPublicKeyFromSecretKeyIn lib k st) = st"
proof -
  from getKeyPairFromDerivativeIn_frame [of d st] obtain g
    where g: "snd (getKeyPairFromDerivativeIn d st) = st @ g" "lookup (st @ g) d = lookup st d"
    by blast
  then show ?thesis by (simp add: getPublicKeyFromSecretKeyIn_frame)
qed

end
